theory Spec2Isabelle
  imports Complex_Main "HOL-Library.Word"
begin

section \<open>Post-processing of SLAM occupancy maps: the data\<close>

text \<open>
  The repository turns a grayscale occupancy map into a floor plan of line segments
  (\<^verbatim>\<open>src/utils.py\<close>, \<^verbatim>\<open>src/post_proc_slam.py\<close>, \<^verbatim>\<open>main.py\<close>).

  A raster is the two-dimensional \<^verbatim>\<open>uint8\<close> array that \<^verbatim>\<open>cv2.imread(..., IMREAD_GRAYSCALE)\<close>
  returns: a list of rows of 8-bit words. NumPy arrays are mutable objects that the code
  reaches through references, so the arrays live in a store and the functions take and
  return addresses; an address is the index of the array in the store, and allocation
  appends. A Python reference always names a live object, so an address is below the
  length of the store; the theorems assume it of the image. A boolean mask such as
  \<^verbatim>\<open>image > t\<close> is a temporary that is never shared, so it is a plain value.

  The thresholds come from the YAML metadata as Python floats; the comparison of a
  \<^verbatim>\<open>uint8\<close> array with a float is done in double precision, where every pixel value is
  exact. They are modelled as reals, the product \<^verbatim>\<open>thresh * 255\<close> being the exact one.
\<close>

type_synonym u8 = "8 word"
type_synonym i32 = "32 word"
type_synonym raster = "u8 list list"
type_synonym mask = "bool list list"
type_synonym addr = nat
type_synonym heap = "raster list"

datatype py_error = KeyError | TypeError | ValueError

subsection \<open>The NumPy operations the code uses\<close>

text \<open>\<^verbatim>\<open>np.zeros_like(a)\<close>: a new array of the shape of \<^verbatim>\<open>a\<close>, filled with zeros.\<close>

definition zeros :: "raster \<Rightarrow> raster" where
  "zeros img = map (map (\<lambda>_. 0)) img"

definition np_zeros_like :: "heap \<Rightarrow> addr \<Rightarrow> addr \<times> heap" where
  "np_zeros_like h a = (length h, h @ [zeros (h ! a)])"

text \<open>The comparisons \<^verbatim>\<open>a > t\<close>, \<^verbatim>\<open>a < t\<close>, \<^verbatim>\<open>a >= t\<close>, \<^verbatim>\<open>a <= t\<close> and \<^verbatim>\<open>m1 & m2\<close>.\<close>

definition np_gt :: "raster \<Rightarrow> real \<Rightarrow> mask" where
  "np_gt img t = map (map (\<lambda>v. t < real (unat v))) img"

definition np_lt :: "raster \<Rightarrow> real \<Rightarrow> mask" where
  "np_lt img t = map (map (\<lambda>v. real (unat v) < t)) img"

definition np_ge :: "raster \<Rightarrow> real \<Rightarrow> mask" where
  "np_ge img t = map (map (\<lambda>v. t \<le> real (unat v))) img"

definition np_le :: "raster \<Rightarrow> real \<Rightarrow> mask" where
  "np_le img t = map (map (\<lambda>v. real (unat v) \<le> t)) img"

definition np_and :: "mask \<Rightarrow> mask \<Rightarrow> mask" where
  "np_and m1 m2 = map2 (map2 (\<and>)) m1 m2"

text \<open>
  \<^verbatim>\<open>b[m] = v\<close>: the array at \<^verbatim>\<open>b\<close> is overwritten in place where the mask holds. NumPy
  raises \<^verbatim>\<open>IndexError\<close> for a mask of another shape; the masks of the classifier are
  computed from the image, whose shape the array written has.
\<close>

definition masked_fill :: "mask \<Rightarrow> u8 \<Rightarrow> raster \<Rightarrow> raster" where
  "masked_fill m v r = map2 (map2 (\<lambda>k old. if k then v else old)) m r"

definition setitem_mask :: "heap \<Rightarrow> addr \<Rightarrow> mask \<Rightarrow> u8 \<Rightarrow> heap" where
  "setitem_mask h b m v = h[b := masked_fill m v (h ! b)]"

text \<open>\<^verbatim>\<open>c - b\<close> for a scalar \<^verbatim>\<open>c\<close>: a new \<^verbatim>\<open>uint8\<close> array, the subtraction wrapping.\<close>

definition np_rsub :: "u8 \<Rightarrow> heap \<Rightarrow> addr \<Rightarrow> addr \<times> heap" where
  "np_rsub c h b = (length h, h @ [map (map (\<lambda>x. c - x)) (h ! b)])"

section \<open>The thresholding classifier\<close>

text \<open>
  \<^verbatim>\<open>preprocess_image(image, occupied_thresh, free_thresh, negate)\<close> of \<^verbatim>\<open>src/utils.py\<close>:
  three masked assignments in sequence into a new array, each mask computed from the
  image as the store holds it at that moment, then the optional inversion, which
  rebinds \<^verbatim>\<open>binary_image\<close> to another new array.
\<close>

definition preprocess_image :: "heap \<Rightarrow> addr \<Rightarrow> real \<Rightarrow> real \<Rightarrow> bool \<Rightarrow> addr \<times> heap" where
  "preprocess_image h img occupied_thresh free_thresh negate =
     (let (binary_image, h1) = np_zeros_like h img;
          h2 = setitem_mask h1 binary_image (np_gt (h1 ! img) (occupied_thresh * 255)) 255;
          h3 = setitem_mask h2 binary_image (np_lt (h2 ! img) (free_thresh * 255)) 0;
          h4 = setitem_mask h3 binary_image
                 (np_and (np_ge (h3 ! img) (free_thresh * 255))
                         (np_le (h3 ! img) (occupied_thresh * 255))) 127
      in if negate then np_rsub 255 h4 binary_image else (binary_image, h4))"

text \<open>The array a call returns: the one its result address names in its result store.\<close>

definition deref :: "addr \<times> heap \<Rightarrow> raster" where
  "deref r = snd r ! fst r"

text \<open>
  The value the three assignments leave in one pixel of intensity \<open>v\<close>, written as
  the sequence of overwrites it is. The source has no such function: it is the
  pixelwise reading of the array code, and \<open>preprocess_image_unfold\<close> below proves
  that the array code computes it.
\<close>

definition assigned :: "real \<Rightarrow> real \<Rightarrow> u8 \<Rightarrow> u8" where
  "assigned occ free v =
     (let b1 = (if occ * 255 < real (unat v) then 255 else 0);
          b2 = (if real (unat v) < free * 255 then 0 else b1)
      in if free * 255 \<le> real (unat v) \<and> real (unat v) \<le> occ * 255 then 127 else b2)"

section \<open>Edge detection and line extraction\<close>

text \<open>
  \<^verbatim>\<open>cv2.Canny\<close>, \<^verbatim>\<open>cv2.HoughLinesP\<close> and \<^verbatim>\<open>cv2.line\<close> belong to OpenCV, not to the
  repository: they are parameters of the model. \<^verbatim>\<open>HoughLinesP\<close> returns \<^verbatim>\<open>None\<close> when it
  finds no line, and otherwise an \<^verbatim>\<open>int32\<close> array of shape \<open>(N, 1, 4)\<close>, here the list of
  its \<open>N\<close> rows \<open>(x1, y1, x2, y2)\<close>.
\<close>

type_synonym segment = "i32 \<times> i32 \<times> i32 \<times> i32"

record hough_params =
  rho :: real
  theta :: real
  threshold :: int
  minLineLength :: int
  maxLineGap :: int

type_synonym cv_canny = "raster \<Rightarrow> int \<Rightarrow> int \<Rightarrow> raster"
type_synonym cv_hough = "raster \<Rightarrow> hough_params \<Rightarrow> segment list option"
type_synonym cv_line = "raster \<Rightarrow> i32 \<times> i32 \<Rightarrow> i32 \<times> i32 \<Rightarrow> u8 \<Rightarrow> int \<Rightarrow> raster"

text \<open>A keyword parameter with a default: \<open>None\<close> when the call leaves it out.\<close>

definition kwarg :: "'a \<Rightarrow> 'a option \<Rightarrow> 'a" where
  "kwarg d arg = (case arg of None \<Rightarrow> d | Some v \<Rightarrow> v)"

text \<open>\<^verbatim>\<open>detect_edges(binary_image, low_threshold=100, high_threshold=200)\<close>.\<close>

definition detect_edges ::
  "cv_canny \<Rightarrow> heap \<Rightarrow> addr \<Rightarrow> int option \<Rightarrow> int option \<Rightarrow> addr \<times> heap" where
  "detect_edges canny h binary_image low_threshold high_threshold =
     (length h,
      h @ [canny (h ! binary_image) (kwarg 100 low_threshold) (kwarg 200 high_threshold)])"

text \<open>
  \<^verbatim>\<open>detect_lines(edges, rho=1.7, theta=np.pi/900, threshold=40, min_line_length=40,
  max_line_gap=35)\<close>: the arguments of the one call of \<^verbatim>\<open>HoughLinesP\<close>, after the
  defaults are bound, and the call.
\<close>

definition detect_lines_args ::
  "real option \<Rightarrow> real option \<Rightarrow> int option \<Rightarrow> int option \<Rightarrow> int option \<Rightarrow> hough_params" where
  "detect_lines_args rho_arg theta_arg threshold_arg min_line_length max_line_gap =
     \<lparr>rho = kwarg 1.7 rho_arg, theta = kwarg (pi / 900) theta_arg,
      threshold = kwarg 40 threshold_arg, minLineLength = kwarg 40 min_line_length,
      maxLineGap = kwarg 35 max_line_gap\<rparr>"

definition detect_lines ::
  "cv_hough \<Rightarrow> heap \<Rightarrow> addr \<Rightarrow> real option \<Rightarrow> real option \<Rightarrow> int option \<Rightarrow> int option \<Rightarrow>
   int option \<Rightarrow> segment list option" where
  "detect_lines hough h edges rho_arg theta_arg threshold_arg min_line_length max_line_gap =
     hough (h ! edges)
       (detect_lines_args rho_arg theta_arg threshold_arg min_line_length max_line_gap)"

section \<open>The floor-plan renderer\<close>

text \<open>
  \<^verbatim>\<open>draw_floor_plan(lines, image)\<close>: a new zero array of the shape of the image; when
  \<^verbatim>\<open>lines\<close> is not \<^verbatim>\<open>None\<close>, one \<^verbatim>\<open>cv2.line(floor_plan, (x1, y1), (x2, y2), 255, 2)\<close> for
  each row, which draws into the array at \<^verbatim>\<open>floor_plan\<close> in place.
\<close>

fun draw_loop :: "cv_line \<Rightarrow> heap \<Rightarrow> addr \<Rightarrow> segment list \<Rightarrow> heap" where
  "draw_loop draw h floor_plan [] = h"
| "draw_loop draw h floor_plan ((x1, y1, x2, y2) # rest) =
     draw_loop draw (h[floor_plan := draw (h ! floor_plan) (x1, y1) (x2, y2) 255 2]) floor_plan rest"

definition draw_floor_plan :: "cv_line \<Rightarrow> heap \<Rightarrow> segment list option \<Rightarrow> addr \<Rightarrow> addr \<times> heap" where
  "draw_floor_plan draw h lines img =
     (let (floor_plan, h1) = np_zeros_like h img
      in case lines of
           None \<Rightarrow> (floor_plan, h1)
         | Some segs \<Rightarrow> (floor_plan, draw_loop draw h1 floor_plan segs))"

section \<open>The vector exporters\<close>

text \<open>
  Each exporter returns the document it saves under \<^verbatim>\<open>filename\<close>, or the exception it
  raises before saving. \<^verbatim>\<open>lines[:, 0, :]\<close> and \<^verbatim>\<open>for line in lines\<close> raise \<^verbatim>\<open>TypeError\<close>
  when \<^verbatim>\<open>lines\<close> is \<^verbatim>\<open>None\<close>.
\<close>

subsection \<open>SVG\<close>

text \<open>
  \<^verbatim>\<open>np.min\<close> and \<^verbatim>\<open>np.max\<close> of an \<^verbatim>\<open>int32\<close> array: \<^verbatim>\<open>ValueError\<close> on an empty one. The
  columns \<^verbatim>\<open>[0, 2]\<close> hold the \<open>x\<close> and the columns \<^verbatim>\<open>[1, 3]\<close> the \<open>y\<close> of the endpoints.
  The differences \<^verbatim>\<open>x_max - x_min\<close> are \<^verbatim>\<open>int32\<close> too, so they wrap. The drawing is the
  data handed to \<^verbatim>\<open>svgwrite\<close>; the checks that library makes on the values are not
  modelled.
\<close>

definition smin :: "i32 \<Rightarrow> i32 \<Rightarrow> i32" where
  "smin a b = (if sint a \<le> sint b then a else b)"

definition smax :: "i32 \<Rightarrow> i32 \<Rightarrow> i32" where
  "smax a b = (if sint a \<le> sint b then b else a)"

definition np_min :: "i32 list \<Rightarrow> py_error + i32" where
  "np_min xs = (case xs of [] \<Rightarrow> Inl ValueError | x # rest \<Rightarrow> Inr (foldl smin x rest))"

definition np_max :: "i32 list \<Rightarrow> py_error + i32" where
  "np_max xs = (case xs of [] \<Rightarrow> Inl ValueError | x # rest \<Rightarrow> Inr (foldl smax x rest))"

definition columns_0_2 :: "segment list \<Rightarrow> i32 list" where
  "columns_0_2 segs = concat (map (\<lambda>(x1, y1, x2, y2). [x1, x2]) segs)"

definition columns_1_3 :: "segment list \<Rightarrow> i32 list" where
  "columns_1_3 segs = concat (map (\<lambda>(x1, y1, x2, y2). [y1, y2]) segs)"

text \<open>\<^verbatim>\<open>float(x)\<close> of an \<^verbatim>\<open>int32\<close>: exact in double precision.\<close>

definition float :: "i32 \<Rightarrow> real" where
  "float x = real_of_int (sint x)"

record svg_line =
  line_start :: "real \<times> real"
  line_end :: "real \<times> real"
  stroke :: string

record svg_drawing =
  svg_size :: "real \<times> real"
  svg_viewbox :: "i32 \<times> i32 \<times> i32 \<times> i32"
  svg_elements :: "svg_line list"

definition export_as_svg :: "segment list option \<Rightarrow> py_error + svg_drawing" where
  "export_as_svg lines =
     (case lines of
        None \<Rightarrow> Inl TypeError
      | Some segs \<Rightarrow>
          (case np_min (columns_0_2 segs) of Inl e \<Rightarrow> Inl e | Inr x_min \<Rightarrow>
          (case np_max (columns_0_2 segs) of Inl e \<Rightarrow> Inl e | Inr x_max \<Rightarrow>
          (case np_min (columns_1_3 segs) of Inl e \<Rightarrow> Inl e | Inr y_min \<Rightarrow>
          (case np_max (columns_1_3 segs) of Inl e \<Rightarrow> Inl e | Inr y_max \<Rightarrow>
             Inr \<lparr>svg_size = (float (x_max - x_min), float (y_max - y_min)),
                  svg_viewbox = (x_min, y_min, x_max - x_min, y_max - y_min),
                  svg_elements =
                    map (\<lambda>(x1, y1, x2, y2).
                          \<lparr>line_start = (float x1, float y1), line_end = (float x2, float y2),
                           stroke = ''rgb(0%,0%,0%)''\<rparr>) segs\<rparr>)))))"

subsection \<open>JSON\<close>

text \<open>
  The Python values the exporter builds, the JSON documents, and the two directions of
  the \<^verbatim>\<open>json\<close> module between them: \<^verbatim>\<open>json.dump\<close> writes a list and a tuple alike as an
  array, \<^verbatim>\<open>json.load\<close> reads an array as a list. The text of the file (indented by four
  spaces) is the module's rendering of the document and is not modelled.
\<close>

datatype py = PyInt int | PyStr string | PyTuple "py list" | PyList "py list"
  | PyDict "(string \<times> py) list"

datatype json = JNumber int | JString string | JArray "json list"
  | JObject "(string \<times> json) list"

fun json_dump :: "py \<Rightarrow> json" where
  "json_dump (PyInt n) = JNumber n"
| "json_dump (PyStr s) = JString s"
| "json_dump (PyTuple vs) = JArray (map json_dump vs)"
| "json_dump (PyList vs) = JArray (map json_dump vs)"
| "json_dump (PyDict kvs) = JObject (map (map_prod id json_dump) kvs)"

fun json_load :: "json \<Rightarrow> py" where
  "json_load (JNumber n) = PyInt n"
| "json_load (JString s) = PyStr s"
| "json_load (JArray vs) = PyList (map json_load vs)"
| "json_load (JObject kvs) = PyDict (map (map_prod id json_load) kvs)"

text \<open>\<^verbatim>\<open>int(x.item())\<close> of an \<^verbatim>\<open>int32\<close> is its signed value.\<close>

definition line_data :: "segment list \<Rightarrow> py" where
  "line_data segs =
     PyList (map (\<lambda>(x1, y1, x2, y2).
                   PyDict [(''start'', PyTuple [PyInt (sint x1), PyInt (sint y1)]),
                           (''end'', PyTuple [PyInt (sint x2), PyInt (sint y2)])]) segs)"

definition export_as_json :: "segment list option \<Rightarrow> py_error + json" where
  "export_as_json lines =
     (case lines of
        None \<Rightarrow> Inl TypeError
      | Some segs \<Rightarrow> Inr (json_dump (line_data segs)))"

subsection \<open>DXF\<close>

text \<open>
  \<^verbatim>\<open>ezdxf.new(dxfversion='R2010')\<close> and one \<^verbatim>\<open>msp.add_line((x1, y1), (x2, y2))\<close> for each
  row: a \<^verbatim>\<open>LINE\<close> entity between two points whose \<open>z\<close> is 0.
\<close>

type_synonym vec3 = "real \<times> real \<times> real"

record dxf_document =
  dxfversion :: string
  modelspace :: "(vec3 \<times> vec3) list"

definition export_as_dxf :: "segment list option \<Rightarrow> py_error + dxf_document" where
  "export_as_dxf lines =
     (case lines of
        None \<Rightarrow> Inl TypeError
      | Some segs \<Rightarrow>
          Inr \<lparr>dxfversion = ''R2010'',
               modelspace =
                 map (\<lambda>(x1, y1, x2, y2). ((float x1, float y1, 0), (float x2, float y2, 0)))
                   segs\<rparr>)"

section \<open>The pipeline of \<^verbatim>\<open>main\<close>\<close>

text \<open>
  The metadata is the dictionary \<^verbatim>\<open>yaml.safe_load\<close> returns; its values are numbers
  (a YAML boolean is the number 0 or 1, as in Python), and a missing key raises
  \<^verbatim>\<open>KeyError\<close>. The body of the loop of \<^verbatim>\<open>main\<close> for one image, in two parts: up to
  \<^verbatim>\<open>lines = slam.detect_lines(edges, metadata['resolution'])\<close>, and from there.
\<close>

type_synonym metadata = "string \<rightharpoonup> real"

datatype vector_choice = Svg | Json | Dxf

datatype export_document = SvgFile svg_drawing | JsonFile json | DxfFile dxf_document

definition getitem :: "metadata \<Rightarrow> string \<Rightarrow> py_error + real" where
  "getitem md k = (case md k of None \<Rightarrow> Inl KeyError | Some v \<Rightarrow> Inr v)"

text \<open>The arguments \<^verbatim>\<open>HoughLinesP\<close> gets through the call of \<^verbatim>\<open>detect_lines\<close> in \<^verbatim>\<open>main\<close>.\<close>

definition main_hough_params :: "metadata \<Rightarrow> py_error + hough_params" where
  "main_hough_params md =
     (case getitem md ''resolution'' of
        Inl e \<Rightarrow> Inl e
      | Inr resolution \<Rightarrow> Inr (detect_lines_args (Some resolution) None None None None))"

definition main_lines ::
  "cv_canny \<Rightarrow> cv_hough \<Rightarrow> metadata \<Rightarrow> heap \<Rightarrow> addr \<Rightarrow> py_error + (segment list option \<times> heap)" where
  "main_lines canny hough md h img =
     (case getitem md ''occupied_thresh'' of Inl e \<Rightarrow> Inl e | Inr occupied_thresh \<Rightarrow>
     (case getitem md ''free_thresh'' of Inl e \<Rightarrow> Inl e | Inr free_thresh \<Rightarrow>
     (case getitem md ''negate'' of Inl e \<Rightarrow> Inl e | Inr negate \<Rightarrow>
        (let (binary_image, h1) = preprocess_image h img occupied_thresh free_thresh (negate \<noteq> 0);
             (edges, h2) = detect_edges canny h1 binary_image None None
         in (case getitem md ''resolution'' of Inl e \<Rightarrow> Inl e | Inr resolution \<Rightarrow>
               Inr (detect_lines hough h2 edges (Some resolution) None None None None, h2))))))"

text \<open>
  The rest of the body: the floor plan is drawn and written, then the chosen exporter
  runs (\<^verbatim>\<open>--vector_format yes\<close>); a missing \<^verbatim>\<open>--vector_choice\<close> raises \<^verbatim>\<open>ValueError\<close>.
  The result is the floor plan written and, for the vector file, the document or the
  exception.
\<close>

definition main_export ::
  "bool \<Rightarrow> vector_choice option \<Rightarrow> segment list option \<Rightarrow> py_error + export_document option" where
  "main_export vector_format choice lines =
     (if vector_format
      then (case choice of
              Some Svg \<Rightarrow> map_sum id (\<lambda>d. Some (SvgFile d)) (export_as_svg lines)
            | Some Json \<Rightarrow> map_sum id (\<lambda>d. Some (JsonFile d)) (export_as_json lines)
            | Some Dxf \<Rightarrow> map_sum id (\<lambda>d. Some (DxfFile d)) (export_as_dxf lines)
            | None \<Rightarrow> Inl ValueError)
      else Inr None)"

definition main_loop_body ::
  "cv_canny \<Rightarrow> cv_hough \<Rightarrow> cv_line \<Rightarrow> metadata \<Rightarrow> bool \<Rightarrow> vector_choice option \<Rightarrow> heap \<Rightarrow> addr \<Rightarrow>
   py_error + (raster \<times> (py_error + export_document option))" where
  "main_loop_body canny hough draw md vector_format choice h img =
     (case main_lines canny hough md h img of
        Inl e \<Rightarrow> Inl e
      | Inr (lines, h2) \<Rightarrow>
          Inr (deref (draw_floor_plan draw h2 lines img), main_export vector_format choice lines))"

section \<open>The classifier computes a pixelwise function\<close>

lemma masked_fill_maps:
  "masked_fill (map (map p) r) c (map (map f) r) = map (map (\<lambda>x. if p x then c else f x)) r"
  by (simp add: masked_fill_def map2_map_map)

lemma np_and_maps:
  "np_and (map (map p) r) (map (map q) r) = map (map (\<lambda>x. p x \<and> q x)) r"
  by (simp add: np_and_def map2_map_map)

text \<open>
  The store after a call: the old arrays, then the classified array, then (with
  negation) its inversion, which is the array returned.
\<close>

lemma preprocess_image_unfold:
  assumes "img < length h"
  shows "preprocess_image h img occ free negate =
           (if negate
            then (Suc (length h),
                  h @ [map (map (assigned occ free)) (h ! img),
                       map (map (\<lambda>v. 255 - assigned occ free v)) (h ! img)])
            else (length h, h @ [map (map (assigned occ free)) (h ! img)]))"
  using assms
  by (simp add: preprocess_image_def np_zeros_like_def setitem_mask_def np_rsub_def zeros_def
      np_gt_def np_lt_def np_ge_def np_le_def np_and_maps masked_fill_maps nth_append
      assigned_def Let_def o_def)

lemma deref_preprocess_image:
  assumes "img < length h"
  shows "deref (preprocess_image h img occ free negate) =
           map (map (\<lambda>v. if negate then 255 - assigned occ free v else assigned occ free v))
             (h ! img)"
  using assms by (simp add: preprocess_image_unfold deref_def nth_append)

lemma pixel_preprocess_image:
  assumes "img < length h" and "i < length (h ! img)" and "j < length (h ! img ! i)"
  shows "deref (preprocess_image h img occ free False) ! i ! j = assigned occ free (h ! img ! i ! j)"
  using assms by (simp add: deref_preprocess_image)

lemma assigned_ordered:
  assumes "free \<le> occ"
  shows "assigned occ free v =
           (if occ * 255 < real (unat v) then 255
            else if real (unat v) < free * 255 then 0 else 127)"
  using assms by (auto simp: assigned_def Let_def)



section \<open>Negation\<close>

lemma assigned_values:
  "assigned occ free v = 255 \<or> assigned occ free v = 0 \<or> assigned occ free v = 127"
  by (simp add: assigned_def Let_def)

lemma negated_value:
  "(255::u8) - assigned occ free v =
     (if assigned occ free v = 255 then 0 else if assigned occ free v = 0 then 255 else 128)"
  using assigned_values [of occ free v] by auto

text \<open>
  C3. For every raster and every pair of thresholds, the array returned with
  \<open>negate\<close> is, pixel by pixel, 255 minus the array returned without it: 255 becomes 0,
  0 becomes 255 and 127 becomes 128.
\<close>

theorem negate_inverts:
  assumes "img < length h"
  shows "deref (preprocess_image h img occupied_thresh free_thresh True) =
           map (map (\<lambda>b. 255 - b)) (deref (preprocess_image h img occupied_thresh free_thresh False))
       \<and> deref (preprocess_image h img occupied_thresh free_thresh True) =
           map (map (\<lambda>b. if b = 255 then 0 else if b = 0 then 255 else 128))
             (deref (preprocess_image h img occupied_thresh free_thresh False))"
  using assms by (simp add: deref_preprocess_image o_def negated_value)

theorem negate_inverts_witness:
  "deref (preprocess_image [[[0, 100, 255]]] 0 0.65 0.25 True) = [[255, 128, 0]]
 \<and> deref (preprocess_image [[[0, 100, 255]]] 0 0.65 0.25 False) = [[0, 127, 255]]"
  using negate_inverts [of 0 "[[[0, 100, 255]]]" "0.65" "0.25"]
  by (simp add: deref_preprocess_image assigned_def)

section \<open>Monotonicity\<close>

lemma assigned_mono:
  assumes "free \<le> occ" and "v1 \<le> v2"
  shows "assigned occ free v1 \<le> assigned occ free v2"
proof -
  have "unat v1 \<le> unat v2"
    using assms(2) by (simp only: word_le_nat_alt)
  then have "real (unat v1) \<le> real (unat v2)"
    by (simp only: of_nat_le_iff)
  then show ?thesis
    using assms(1) by (simp add: assigned_ordered)
qed

text \<open>
  C8. When \<open>free_thresh \<le> occupied_thresh\<close>, of two pixels of the image the one with
  the smaller intensity has the smaller class in the array returned without negation,
  the classes ordered as the numbers 0 (free), 127 (unknown), 255 (occupied). The
  thresholds need not lie in \<open>[0, 1]\<close>.
\<close>

theorem classifier_monotone:
  assumes "free_thresh \<le> occupied_thresh" and "img < length h"
    and "i < length (h ! img)" and "j < length (h ! img ! i)"
    and "k < length (h ! img)" and "l < length (h ! img ! k)"
    and "h ! img ! i ! j \<le> h ! img ! k ! l"
  shows "deref (preprocess_image h img occupied_thresh free_thresh False) ! i ! j
           \<le> deref (preprocess_image h img occupied_thresh free_thresh False) ! k ! l"
  using assms by (simp add: pixel_preprocess_image assigned_mono)

theorem classifier_monotone_witness:
  "deref (preprocess_image [[[10, 100], [200, 100]]] 0 0.65 0.25 False) ! 0 ! 1
     \<le> deref (preprocess_image [[[10, 100], [200, 100]]] 0 0.65 0.25 False) ! 1 ! 0"
  using classifier_monotone [of "0.25" "0.65" 0 "[[[10, 100], [200, 100]]]" 0 1 1 0]
  by simp

section \<open>Thresholds in the other order\<close>





section \<open>The renderer\<close>

lemma draw_loop_last:
  "draw_loop draw (h @ [r]) (length h) segs =
     h @ [foldl (\<lambda>fp (x1, y1, x2, y2). draw fp (x1, y1) (x2, y2) 255 2) r segs]"
  by (induction segs arbitrary: r) auto

lemma draw_floor_plan_unfold:
  "draw_floor_plan draw h lines img =
     (length h,
      h @ [foldl (\<lambda>fp (x1, y1, x2, y2). draw fp (x1, y1) (x2, y2) 255 2) (zeros (h ! img))
             (case lines of None \<Rightarrow> [] | Some segs \<Rightarrow> segs)])"
  by (simp add: draw_floor_plan_def np_zeros_like_def draw_loop_last split: option.split)

text \<open>
  C7. The renderer returns a new array: the zero array of the shape of the image, on
  which \<^verbatim>\<open>cv2.line\<close> has drawn every segment in turn between its endpoints with value
  255 and thickness 2. When \<^verbatim>\<open>lines\<close> is \<^verbatim>\<open>None\<close> or empty, it is that zero array, and no
  exception is raised.
\<close>

theorem renderer_draws_on_zeros:
  "draw_floor_plan draw h lines img =
     (length h,
      h @ [foldl (\<lambda>fp (x1, y1, x2, y2). draw fp (x1, y1) (x2, y2) 255 2) (zeros (h ! img))
             (case lines of None \<Rightarrow> [] | Some segs \<Rightarrow> segs)])
 \<and> zeros (h ! img) = map (\<lambda>row. replicate (length row) 0) (h ! img)
 \<and> deref (draw_floor_plan draw h None img) = zeros (h ! img)
 \<and> deref (draw_floor_plan draw h (Some []) img) = zeros (h ! img)"
  by (simp add: draw_floor_plan_unfold deref_def zeros_def map_replicate_const)

section \<open>The inputs are not written\<close>

text \<open>
  C9. After \<^verbatim>\<open>preprocess_image(image, ...)\<close> and after \<^verbatim>\<open>draw_floor_plan(lines, image)\<close>
  every array that the store held before the call, the image among them, is unchanged,
  and the array returned is a new one.
\<close>

theorem inputs_not_modified:
  assumes "img < length h"
  shows "take (length h) (snd (preprocess_image h img occupied_thresh free_thresh negate)) = h
       \<and> snd (preprocess_image h img occupied_thresh free_thresh negate) ! img = h ! img
       \<and> length h \<le> fst (preprocess_image h img occupied_thresh free_thresh negate)
       \<and> take (length h) (snd (draw_floor_plan draw h lines img)) = h
       \<and> snd (draw_floor_plan draw h lines img) ! img = h ! img
       \<and> length h \<le> fst (draw_floor_plan draw h lines img)"
  using assms by (simp add: preprocess_image_unfold draw_floor_plan_unfold nth_append)

theorem inputs_not_modified_witness:
  "snd (preprocess_image [[[10, 100, 200]]] 0 0.65 0.25 True) ! 0 = [[10, 100, 200]]
 \<and> snd (draw_floor_plan (\<lambda>r p q c w. map (map (\<lambda>_. c)) r) [[[10, 100, 200]]]
          (Some [(0, 0, 2, 0)]) 0) ! 0 = [[10, 100, 200]]"
  using inputs_not_modified [of 0 "[[[10, 100, 200]]]" "0.65" "0.25" True
      "\<lambda>r p q c w. map (map (\<lambda>_. c)) r" "Some [(0, 0, 2, 0)]"]
  by simp

section \<open>The line extractor's parameters\<close>

text \<open>
  The claim that the pipeline always runs the line extractor with \<open>rho = 1.7\<close> fails:
  \<^verbatim>\<open>main\<close> passes \<^verbatim>\<open>metadata['resolution']\<close> as \<^verbatim>\<open>rho\<close>. With the metadata of a usual map
  (\<open>resolution: 0.05\<close>) the parameters are not the five defaults.
\<close>

theorem hough_rho_counterexample:
  "main_hough_params [''resolution'' \<mapsto> 0.05, ''occupied_thresh'' \<mapsto> 0.65,
                      ''free_thresh'' \<mapsto> 0.196, ''negate'' \<mapsto> 0]
     \<noteq> Inr \<lparr>rho = 1.7, theta = pi / 900, threshold = 40, minLineLength = 40, maxLineGap = 35\<rparr>"
  by (simp add: main_hough_params_def getitem_def detect_lines_args_def kwarg_def)

text \<open>
  C2, as amended. For every run whose metadata has the four keys, \<^verbatim>\<open>HoughLinesP\<close> is
  called on the edge map with \<open>rho\<close> the \<open>resolution\<close> of the metadata and with
  \<open>theta = \<pi>/900\<close>, \<open>threshold = 40\<close>, \<open>minLineLength = 40\<close>, \<open>maxLineGap = 35\<close>; \<open>rho\<close> is
  1.7 only in a call of \<^verbatim>\<open>detect_lines\<close> that leaves it out.
\<close>

theorem hough_params_of_pipeline:
  assumes "md ''occupied_thresh'' = Some occ" and "md ''free_thresh'' = Some free"
    and "md ''negate'' = Some neg" and "md ''resolution'' = Some res"
    and "img < length h"
  shows "main_hough_params md =
           Inr \<lparr>rho = res, theta = pi / 900, threshold = 40, minLineLength = 40, maxLineGap = 35\<rparr>
       \<and> map_sum id fst (main_lines canny hough md h img) =
           Inr (hough (canny (deref (preprocess_image h img occ free (neg \<noteq> 0))) 100 200)
                  \<lparr>rho = res, theta = pi / 900, threshold = 40, minLineLength = 40,
                   maxLineGap = 35\<rparr>)
       \<and> detect_lines_args None None None None None =
           \<lparr>rho = 1.7, theta = pi / 900, threshold = 40, minLineLength = 40, maxLineGap = 35\<rparr>"
  using assms
  by (simp add: main_hough_params_def main_lines_def getitem_def detect_lines_args_def kwarg_def
      detect_lines_def detect_edges_def preprocess_image_unfold deref_def nth_append)

theorem hough_params_of_pipeline_witness:
  "main_hough_params [''resolution'' \<mapsto> 0.05, ''occupied_thresh'' \<mapsto> 0.65,
                      ''free_thresh'' \<mapsto> 0.196, ''negate'' \<mapsto> 0] =
     Inr \<lparr>rho = 0.05, theta = pi / 900, threshold = 40, minLineLength = 40, maxLineGap = 35\<rparr>"
  using hough_params_of_pipeline
    [of "[''resolution'' \<mapsto> 0.05, ''occupied_thresh'' \<mapsto> 0.65, ''free_thresh'' \<mapsto> 0.196,
          ''negate'' \<mapsto> 0]" "0.65" "0.196" 0 "0.05" 0 "[[[0, 255]]]"]
  by simp

section \<open>The exporters\<close>

subsection \<open>The bounding box of the SVG document\<close>


















subsection \<open>The JSON document read back\<close>

text \<open>
  C5. The JSON exporter saves an array with one object
  \<open>{"start": [x1, y1], "end": [x2, y2]}\<close> for each segment, in the order of the
  segments, and reading the document back gives the list of those objects with the
  same integers.
\<close>

theorem json_round_trip:
  "export_as_json (Some segs) =
     Inr (JArray (map (\<lambda>(x1, y1, x2, y2).
                        JObject [(''start'', JArray [JNumber (sint x1), JNumber (sint y1)]),
                                 (''end'', JArray [JNumber (sint x2), JNumber (sint y2)])]) segs))
 \<and> map_sum id json_load (export_as_json (Some segs)) =
     Inr (PyList (map (\<lambda>(x1, y1, x2, y2).
                        PyDict [(''start'', PyList [PyInt (sint x1), PyInt (sint y1)]),
                                (''end'', PyList [PyInt (sint x2), PyInt (sint y2)])]) segs))"
  by (simp add: export_as_json_def line_data_def o_def split_def)

subsection \<open>No segments\<close>

text \<open>An array of no rows: an empty JSON array, a DXF document of no entity, no SVG.\<close>

lemma export_empty_array:
  "export_as_json (Some []) = Inr (JArray [])
 \<and> export_as_dxf (Some []) = Inr \<lparr>dxfversion = ''R2010'', modelspace = []\<rparr>
 \<and> export_as_svg (Some []) = Inl ValueError"
  by (simp add: export_as_json_def line_data_def export_as_dxf_def export_as_svg_def
      columns_0_2_def np_min_def)

text \<open>
  C4. When no line is found, \<^verbatim>\<open>HoughLinesP\<close> returns \<^verbatim>\<open>None\<close>, and then the JSON and the
  DXF exporter raise \<^verbatim>\<open>TypeError\<close> instead of saving an empty document, also when
  they run in the pipeline; the renderer, which tests \<^verbatim>\<open>lines is not None\<close>, returns
  the zero raster.
\<close>

theorem export_without_lines_raises:
  "export_as_json None = Inl TypeError
 \<and> export_as_dxf None = Inl TypeError
 \<and> export_as_svg None = Inl TypeError
 \<and> main_loop_body (\<lambda>r lo hi. r) (\<lambda>e p. None) draw
       [''resolution'' \<mapsto> 0.05, ''occupied_thresh'' \<mapsto> 0.65, ''free_thresh'' \<mapsto> 0.196,
        ''negate'' \<mapsto> 0]
       True (Some Json) [[[7, 7], [7, 7]]] 0 = Inr ([[0, 0], [0, 0]], Inl TypeError)
 \<and> main_loop_body (\<lambda>r lo hi. r) (\<lambda>e p. None) draw
       [''resolution'' \<mapsto> 0.05, ''occupied_thresh'' \<mapsto> 0.65, ''free_thresh'' \<mapsto> 0.196,
        ''negate'' \<mapsto> 0]
       True (Some Dxf) [[[7, 7], [7, 7]]] 0 = Inr ([[0, 0], [0, 0]], Inl TypeError)"
  by (simp add: export_as_json_def export_as_dxf_def export_as_svg_def main_export_def
      main_loop_body_def main_lines_def getitem_def detect_lines_def detect_edges_def
      preprocess_image_unfold draw_floor_plan_unfold zeros_def deref_def)

end
